theory Spec2Isabelle
  imports Complex_Main
begin

section \<open>Values\<close>

text \<open>
  JavaScript numbers are modelled as exact rationals: the rounding of IEEE doubles is not
  part of the model. Callbacks are functions from their argument list to either a thrown
  value (\<open>Inl\<close>) or a returned value (\<open>Inr\<close>); the values they return are plain
  (not thenable), and a callback does not call back into the frame or the animation that
  runs it. Easing functions map numbers to numbers.
\<close>

datatype jsval = Undefined | Num rat | Str string

datatype js_error = TypeError | Error string

type_synonym callback = "jsval list \<Rightarrow> jsval + jsval"

type_synonym easing = "rat \<Rightarrow> rat"

definition FPS :: rat where
  "FPS = 60"

definition INTERVAL :: rat where
  "INTERVAL = 1000 / FPS"


section \<open>The easing resolver\<close>

text \<open>
  The shapes of the \<open>timingFunction\<close> argument: a string, an array of numbers, a
  function, or anything else.
\<close>

datatype timing =
    is_TString: TString string
  | is_TArray: TArray "rat list"
  | is_TFunction: TFunction easing
  | TOther

text \<open>
  The export \<open>Bezier\<close> of the easing-curve library is a parameter of the model: either
  it is missing (\<open>None\<close>, the value \<open>undefined\<close>) or it is the library function, with
  its named curves (\<open>Bezier[name]\<close>, \<open>None\<close> when there is no such curve) and its
  constructor from control points (\<open>Bezier.apply(Bezier, points)\<close>).
\<close>

record bezier_lib =
  named :: "string \<Rightarrow> easing option"
  construct :: "rat list \<Rightarrow> easing"

text \<open>Reading a property of \<open>undefined\<close>, or calling one, throws a TypeError.\<close>

definition Bezier_member :: "bezier_lib option \<Rightarrow> string \<Rightarrow> js_error + easing option" where
  "Bezier_member Bezier name =
     (case Bezier of None \<Rightarrow> Inl TypeError | Some L \<Rightarrow> Inr (named L name))"

definition Bezier_apply :: "bezier_lib option \<Rightarrow> rat list \<Rightarrow> js_error + easing" where
  "Bezier_apply Bezier points =
     (case Bezier of None \<Rightarrow> Inl TypeError | Some L \<Rightarrow> Inr (construct L points))"

text \<open>
  \<open>getBezier\<close>: the result \<open>Inr None\<close> is the variable \<open>bezier\<close> left
  \<open>undefined\<close>. The branch taken when \<open>Bezier\<close> is truthy is empty in the source.
\<close>

definition getBezier :: "bezier_lib option \<Rightarrow> timing \<Rightarrow> js_error + easing option" where
  "getBezier Bezier timingFunction =
     (if is_TString timingFunction \<or> is_TArray timingFunction then
        (if Bezier \<noteq> None then Inr None
         else
           (case timingFunction of
              TString name \<Rightarrow>
                (case Bezier_member Bezier name of
                   Inl e \<Rightarrow> Inl e
                 | Inr None \<Rightarrow> Inr None
                 | Inr (Some curve) \<Rightarrow> Inr (Some curve))
            | TArray points \<Rightarrow>
                (if length points = 4 then
                   (case Bezier_apply Bezier points of
                      Inl e \<Rightarrow> Inl e
                    | Inr curve \<Rightarrow> Inr (Some curve))
                 else Inr None)
            | _ \<Rightarrow> Inr None))
      else
        (case timingFunction of
           TFunction f \<Rightarrow> Inr (Some f)
         | _ \<Rightarrow> Inr None))"

section \<open>The store\<close>

text \<open>
  Frames, futures and animations are objects with identity: each lives in a store at an
  address, allocated from a counter. A frame holds the variables of its closure.
\<close>

record frame =
  frame_fun :: callback
  frame_defer :: "nat option"
  frame_tick :: "nat option"
  frame_isCancel :: bool
  frame_then :: "nat option"

datatype pstate = Pending | Fulfilled jsval | Rejected jsval

text \<open>
  The only handlers the program registers on a future are the two that \<open>play\<close>
  attaches to the future of the frame it has just requested; \<open>Walk a\<close> stands for that
  pair, of the animation at address \<open>a\<close>. Handlers of callers are not modelled.
\<close>

datatype reaction = Walk nat

record promise =
  state :: pstate
  reactions :: "reaction list"

datatype job = is_OnFulfilled: OnFulfilled reaction jsval | OnRejected reaction jsval

record animation =
  anim_frameQueue :: "nat list"
  anim_framePercent :: rat
  anim_frameIndex :: nat
  anim_bezier :: easing
  anim_timingFunction :: timing
  anim_isPlaying :: bool
  anim_defer :: "nat option"
  anim_then :: "nat option"

text \<open>What the program does to its environment, in order (latest last).\<close>

datatype event =
    Scheduled nat nat "jsval list"
  | CancelAsked nat
  | Invoked nat "jsval list"
  | Uncaught jsval
  | FrameResolve nat jsval
  | FrameReject nat jsval
  | CycleResolve nat jsval
  | Swallowed js_error

text \<open>
  The world: the frame store, the futures of frames, the futures of play cycles (on
  which the program registers no handler, so only their state is kept), the animations,
  the scheduler's pending callbacks (token, frame, arguments) in the order they were
  registered, the number of tokens issued, the microtask queue and the trace.
\<close>

record world =
  frames :: "nat \<Rightarrow> frame"
  next_frame :: nat
  promises :: "nat \<Rightarrow> promise"
  next_promise :: nat
  cycles :: "nat \<Rightarrow> pstate"
  next_cycle :: nat
  anims :: "nat \<Rightarrow> animation"
  next_anim :: nat
  pending :: "(nat \<times> nat \<times> jsval list) list"
  issued :: nat
  microtasks :: "job list"
  trace :: "event list"

section \<open>Frame: construction and cloning\<close>

definition Frame :: "callback \<Rightarrow> world \<Rightarrow> nat \<times> world" where
  "Frame fn w =
     (next_frame w,
      w\<lparr>frames := (frames w)(next_frame w :=
           \<lparr>frame_fun = fn, frame_defer = None, frame_tick = None,
            frame_isCancel = False, frame_then = None\<rparr>),
        next_frame := Suc (next_frame w)\<rparr>)"


section \<open>The frame queue builder\<close>




text \<open>Calling a property that is not there throws when the frame fires.\<close>

definition missing_callback :: callback where
  "missing_callback args = Inl (Str ''TypeError'')"





section \<open>Futures\<close>

definition PromiseDefer :: "world \<Rightarrow> nat \<times> world" where
  "PromiseDefer w =
     (next_promise w,
      w\<lparr>promises := (promises w)(next_promise w := \<lparr>state = Pending, reactions = []\<rparr>),
        next_promise := Suc (next_promise w)\<rparr>)"


text \<open>
  Settling a future that is already settled does nothing; settling a pending one queues
  a microtask for each handler registered on it.
\<close>

definition deferred_resolve :: "nat \<Rightarrow> jsval \<Rightarrow> world \<Rightarrow> world" where
  "deferred_resolve d v w =
     (let w1 = w\<lparr>trace := trace w @ [FrameResolve d v]\<rparr>
      in if state (promises w1 d) = Pending then
           w1\<lparr>promises := (promises w1)(d := \<lparr>state = Fulfilled v, reactions = []\<rparr>),
              microtasks := microtasks w1 @ map (\<lambda>r. OnFulfilled r v) (reactions (promises w1 d))\<rparr>
         else w1)"

definition deferred_reject :: "nat \<Rightarrow> jsval \<Rightarrow> world \<Rightarrow> world" where
  "deferred_reject d v w =
     (let w1 = w\<lparr>trace := trace w @ [FrameReject d v]\<rparr>
      in if state (promises w1 d) = Pending then
           w1\<lparr>promises := (promises w1)(d := \<lparr>state = Rejected v, reactions = []\<rparr>),
              microtasks := microtasks w1 @ map (\<lambda>r. OnRejected r v) (reactions (promises w1 d))\<rparr>
         else w1)"

definition cycle_resolve :: "nat \<Rightarrow> jsval \<Rightarrow> world \<Rightarrow> world" where
  "cycle_resolve d v w =
     (let w1 = w\<lparr>trace := trace w @ [CycleResolve d v]\<rparr>
      in if cycles w1 d = Pending then w1\<lparr>cycles := (cycles w1)(d := Fulfilled v)\<rparr> else w1)"

definition promise_then :: "nat \<Rightarrow> reaction \<Rightarrow> world \<Rightarrow> world" where
  "promise_then d r w =
     (case state (promises w d) of
        Pending \<Rightarrow>
          w\<lparr>promises := (promises w)(d := (promises w d)\<lparr>reactions := reactions (promises w d) @ [r]\<rparr>)\<rparr>
      | Fulfilled v \<Rightarrow> w\<lparr>microtasks := microtasks w @ [OnFulfilled r v]\<rparr>
      | Rejected v \<Rightarrow> w\<lparr>microtasks := microtasks w @ [OnRejected r v]\<rparr>)"

section \<open>The scheduler\<close>

text \<open>
  The host's scheduler: a token is a positive number, never issued twice; cancelling
  drops the callback registered under the token, if it is still there.
\<close>

definition requestAnimationFrame :: "nat \<Rightarrow> jsval list \<Rightarrow> world \<Rightarrow> nat \<times> world" where
  "requestAnimationFrame fr args w =
     (Suc (issued w),
      w\<lparr>pending := pending w @ [(Suc (issued w), fr, args)],
        issued := Suc (issued w),
        trace := trace w @ [Scheduled (Suc (issued w)) fr args]\<rparr>)"

definition cancelAnimationFrame :: "nat \<Rightarrow> world \<Rightarrow> world" where
  "cancelAnimationFrame t w =
     w\<lparr>pending := filter (\<lambda>p. fst p \<noteq> t) (pending w),
       trace := trace w @ [CancelAsked t]\<rparr>"

section \<open>Frame: request, cancel, firing\<close>

definition Frame_request :: "nat \<Rightarrow> jsval list \<Rightarrow> world \<Rightarrow> world" where
  "Frame_request fr args w =
     (let w1 = w\<lparr>frames := (frames w)(fr := (frames w fr)\<lparr>frame_isCancel := False\<rparr>)\<rparr>;
          (d, w2) = PromiseDefer w1;
          w3 = w2\<lparr>frames := (frames w2)(fr := (frames w2 fr)\<lparr>frame_defer := Some d,
                                                               frame_then := Some d\<rparr>)\<rparr>;
          (t, w4) = requestAnimationFrame fr args w3
      in w4\<lparr>frames := (frames w4)(fr := (frames w4 fr)\<lparr>frame_tick := Some t\<rparr>)\<rparr>)"

definition Frame_cancel :: "nat \<Rightarrow> world \<Rightarrow> world" where
  "Frame_cancel fr w =
     (case frame_tick (frames w fr) of
        None \<Rightarrow> w
      | Some t \<Rightarrow>
          if t \<noteq> 0 then
            (let w1 = w\<lparr>frames := (frames w)(fr := (frames w fr)\<lparr>frame_isCancel := True\<rparr>)\<rparr>;
                 w2 = cancelAnimationFrame t w1
             in case frame_defer (frames w2 fr) of
                  None \<Rightarrow> w2
                | Some d \<Rightarrow> deferred_reject d (Str ''CANCEL'') w2)
          else w)"

text \<open>The callback that \<open>request\<close> hands to the scheduler, for frame \<open>fr\<close> and \<open>args\<close>.\<close>

definition tick_callback :: "nat \<Rightarrow> jsval list \<Rightarrow> world \<Rightarrow> world" where
  "tick_callback fr args w =
     (if frame_isCancel (frames w fr) then w
      else
        (case frame_defer (frames w fr) of
           None \<Rightarrow> w
         | Some d \<Rightarrow>
             (case frame_fun (frames w fr) args of
                Inr v \<Rightarrow> deferred_resolve d v (w\<lparr>trace := trace w @ [Invoked fr args]\<rparr>)
              | Inl e \<Rightarrow> w\<lparr>trace := trace w @ [Invoked fr args, Uncaught e]\<rparr>)))"

section \<open>Number.prototype.toFixed\<close>

text \<open>
  \<open>toFixed f x\<close> for \<open>\<bar>x\<bar> < 10^21\<close>: the decimal rendering, with \<open>f\<close> digits after
  the point, of the integer \<open>n\<close> closest to \<open>\<bar>x\<bar> * 10^f\<close> (the larger one of two).
\<close>

definition digit_char :: "nat \<Rightarrow> char" where
  "digit_char d = ''0123456789'' ! d"

fun digits :: "nat \<Rightarrow> string" where
  "digits n = (if n < 10 then [digit_char n] else digits (n div 10) @ [digit_char (n mod 10)])"

declare digits.simps [simp del]

definition toFixed :: "nat \<Rightarrow> rat \<Rightarrow> string" where
  "toFixed f x =
     (let s = (if x < 0 then ''-'' else []);
          n = nat \<lfloor>\<bar>x\<bar> * 10 ^ f + 1 / 2\<rfloor>;
          m = digits n;
          m = replicate (Suc f - length m) (CHR ''0'') @ m;
          k = length m
      in s @ take (k - f) m @ (if f = 0 then [] else CHR ''.'' # drop (k - f) m))"

text \<open>
  The number that a decimal literal \<open>[-]digits[.digits]\<close> denotes, as the
  multiplication of a number by such a string takes it.
\<close>

definition digit_val :: "char \<Rightarrow> nat" where
  "digit_val c = length (takeWhile (\<lambda>x. x \<noteq> c) ''0123456789'')"

definition parse_digits :: "string \<Rightarrow> nat" where
  "parse_digits s = foldl (\<lambda>n c. 10 * n + digit_val c) 0 s"

definition ToNumber :: "string \<Rightarrow> rat" where
  "ToNumber s =
     (let negative = (s \<noteq> [] \<and> hd s = CHR ''-'');
          body = (if negative then tl s else s);
          whole = takeWhile (\<lambda>c. c \<noteq> CHR ''.'') body;
          fraction = drop (Suc (length whole)) body;
          v = of_nat (parse_digits whole) + of_nat (parse_digits fraction) / 10 ^ length fraction
      in if negative then - v else v)"

section \<open>The animation driver\<close>



text \<open>
  The inner function \<open>request\<close> of \<open>play\<close>. \<open>(frameIndex + 1).toFixed(10)\<close> is a
  string, which the multiplication converts back to a number. Reading \<open>request\<close> off a
  missing queue element throws, and so does calling a \<open>timingFunction\<close> that is not a
  function; both before the frame is touched.
\<close>

definition request :: "nat \<Rightarrow> world \<Rightarrow> js_error + world" where
  "request a w =
     (let percent = anim_framePercent (anims w a)
                      * ToNumber (toFixed 10 (of_nat (anim_frameIndex (anims w a) + 1)))
      in if anim_frameIndex (anims w a) < length (anim_frameQueue (anims w a)) then
           (let currentFrame = anim_frameQueue (anims w a) ! anim_frameIndex (anims w a)
            in case anim_timingFunction (anims w a) of
                 TFunction timingFunction \<Rightarrow>
                   (let w1 = Frame_request currentFrame
                               [Str (toFixed 10 percent),
                                Str (toFixed 10 (timingFunction percent))] w
                    in case frame_then (frames w1 currentFrame) of
                         Some d \<Rightarrow> Inr (promise_then d (Walk a) w1)
                       | None \<Rightarrow> Inl TypeError)
               | _ \<Rightarrow> Inl TypeError)
         else Inl TypeError)"


text \<open>
  The handler that \<open>request\<close> registers for the resolution of the frame's future. An
  error thrown inside it rejects the future that \<open>then\<close> returned, which nobody holds.
\<close>

definition walk_onFulfilled :: "nat \<Rightarrow> world \<Rightarrow> world" where
  "walk_onFulfilled a w =
     (if \<not> anim_isPlaying (anims w a) then w
      else if int (anim_frameIndex (anims w a)) = int (length (anim_frameQueue (anims w a))) - 1 then
        (let w1 = w\<lparr>anims := (anims w)(a := (anims w a)\<lparr>anim_isPlaying := False\<rparr>)\<rparr>;
             w2 = (case anim_defer (anims w1 a) of
                     Some d \<Rightarrow> cycle_resolve d (Str ''FINISH'') w1
                   | None \<Rightarrow> w1)
         in w2\<lparr>anims := (anims w2)(a := (anims w2 a)\<lparr>anim_defer := None\<rparr>)\<rparr>)
      else
        (let w1 = w\<lparr>anims := (anims w)(a := (anims w a)\<lparr>anim_frameIndex :=
                                              anim_frameIndex (anims w a) + 1\<rparr>)\<rparr>
         in case request a w1 of
              Inl e \<Rightarrow> w1\<lparr>trace := trace w1 @ [Swallowed e]\<rparr>
            | Inr w2 \<Rightarrow> w2))"


text \<open>\<open>requestFrame\<close> has one parameter; what else it is called with is not read.\<close>

definition requestFrame :: "callback \<Rightarrow> jsval list \<Rightarrow> world \<Rightarrow> nat \<times> world" where
  "requestFrame fn extra w = (let (fr, w1) = Frame fn w in (fr, Frame_request fr [] w1))"

section \<open>The event loop\<close>

definition run_job :: "job \<Rightarrow> world \<Rightarrow> world" where
  "run_job j w =
     (case j of
        OnFulfilled (Walk a) v \<Rightarrow> walk_onFulfilled a w
      | OnRejected (Walk a) v \<Rightarrow> w)"

text \<open>
  After a task, the microtasks run in order. A job of this program never queues another
  (\<open>run_job_microtasks\<close> below), so one pass empties the queue.
\<close>

definition drain :: "world \<Rightarrow> world" where
  "drain w = fold run_job (microtasks w) (w\<lparr>microtasks := []\<rparr>)"

text \<open>The scheduler runs the callback registered under a pending token, as a task.\<close>

definition fire :: "nat \<Rightarrow> world \<Rightarrow> world" where
  "fire t w =
     (case map_of (pending w) t of
        None \<Rightarrow> w
      | Some (fr, args) \<Rightarrow>
          drain (tick_callback fr args (w\<lparr>pending := filter (\<lambda>p. fst p \<noteq> t) (pending w)\<rparr>)))"

text \<open>An empty world, and a stand-in for the easing-curve library.\<close>

definition blank_frame :: frame where
  "blank_frame = \<lparr>frame_fun = missing_callback, frame_defer = None, frame_tick = None,
                  frame_isCancel = False, frame_then = None\<rparr>"

definition blank_animation :: animation where
  "blank_animation = \<lparr>anim_frameQueue = [], anim_framePercent = 0, anim_frameIndex = 0,
                      anim_bezier = (\<lambda>x. x), anim_timingFunction = TOther,
                      anim_isPlaying = False, anim_defer = None, anim_then = None\<rparr>"

definition empty_world :: world where
  "empty_world =
     \<lparr>frames = (\<lambda>_. blank_frame), next_frame = 0,
      promises = (\<lambda>_. \<lparr>state = Pending, reactions = []\<rparr>), next_promise = 0,
      cycles = (\<lambda>_. Pending), next_cycle = 0,
      anims = (\<lambda>_. blank_animation), next_anim = 0,
      pending = [], issued = 0, microtasks = [], trace = []\<rparr>"

definition linear :: easing where
  "linear x = x"

definition example_lib :: bezier_lib where
  "example_lib =
     \<lparr>named = (\<lambda>name. if name = ''linear'' then Some linear else None),
      construct = (\<lambda>points. linear)\<rparr>"

section \<open>The queue builder as the specification words it\<close>




section \<open>Fixtures\<close>

definition noop :: callback where
  "noop args = Inr Undefined"


text \<open>A callback that throws, and one that returns its first argument.\<close>

definition thrower :: callback where
  "thrower args = Inl (Str ''boom'')"

definition first_arg :: callback where
  "first_arg args = Inr (case args of [] \<Rightarrow> Undefined | x # xs \<Rightarrow> x)"

text \<open>A frame requested once; one whose callback has thrown; one requested twice.\<close>

definition requested_world :: world where
  "requested_world = snd (requestFrame noop [] empty_world)"

definition thrown_world :: world where
  "thrown_world = fire 1 (snd (requestFrame thrower [] empty_world))"

definition twice_world :: world where
  "twice_world = Frame_request 0 [Num 2] (Frame_request 0 [Num 1] (snd (Frame first_arg empty_world)))"

text \<open>No pending token is beyond the last one issued.\<close>

definition tokens_issued :: "world \<Rightarrow> bool" where
  "tokens_issued w \<longleftrightarrow> list_all (\<lambda>p. fst p \<le> issued w) (pending w)"

section \<open>Runs of one animation\<close>







text \<open>How often the trace resolves the play future \<open>c\<close> with \<open>FINISH\<close>.\<close>

definition finishes :: "nat \<Rightarrow> world \<Rightarrow> nat" where
  "finishes c w = length (filter (\<lambda>e. e = CycleResolve c (Str ''FINISH'')) (trace w))"






section \<open>Properties\<close>

lemma getBezier_unresolved_iff:
  "getBezier Bezier timingFunction = Inr None \<longleftrightarrow>
     (case timingFunction of
        TString name \<Rightarrow> Bezier \<noteq> None
      | TArray points \<Rightarrow> Bezier \<noteq> None \<or> length points \<noteq> 4
      | TFunction f \<Rightarrow> False
      | TOther \<Rightarrow> True)"
  by (cases timingFunction; cases Bezier)
     (simp_all add: getBezier_def Bezier_member_def Bezier_apply_def)

text \<open>
  C1 (the easing resolver). The claim: a string resolves to the library's named curve, an
  array of four numbers to a cubic bezier built from them, a callable to itself, anything
  else to nothing. The code tests the library export the wrong way round: with the library
  loaded, every string and every array is left unresolved, and without it the lookup
  throws a TypeError. Only the last two parts of the claim hold: a callable resolves to
  itself and any other value to nothing. The stand-in library has the curve \<open>linear\<close>,
  and still \<open>getBezier\<close> does not return it.
\<close>

theorem getBezier_ignores_library:
  "getBezier (Some L) (TString name) = Inr None
   \<and> getBezier (Some L) (TArray points) = Inr None
   \<and> getBezier None (TString name) = Inl TypeError
   \<and> getBezier None (TArray [p1x, p1y, p2x, p2y]) = Inl TypeError
   \<and> getBezier Bezier (TFunction f) = Inr (Some f)
   \<and> getBezier Bezier TOther = Inr None
   \<and> named example_lib ''linear'' = Some linear
   \<and> getBezier (Some example_lib) (TString ''linear'') = Inr None"
  by (simp add: getBezier_def Bezier_member_def Bezier_apply_def example_lib_def)

























lemma Frame_request_effect:
  "Frame_request fr args w =
     w\<lparr>frames := (frames w)(fr := (frames w fr)\<lparr>frame_isCancel := False,
            frame_defer := Some (next_promise w), frame_then := Some (next_promise w),
            frame_tick := Some (Suc (issued w))\<rparr>),
       promises := (promises w)(next_promise w := \<lparr>state = Pending, reactions = []\<rparr>),
       next_promise := Suc (next_promise w),
       pending := pending w @ [(Suc (issued w), fr, args)],
       issued := Suc (issued w),
       trace := trace w @ [Scheduled (Suc (issued w)) fr args]\<rparr>"
  by (simp add: Frame_request_def PromiseDefer_def requestAnimationFrame_def Let_def)

lemma Frame_cancel_unrequested:
  "frame_tick (frames w fr) = None \<Longrightarrow> Frame_cancel fr w = w"
  by (simp add: Frame_cancel_def)

lemma Frame_cancel_effect:
  assumes "frame_tick (frames w fr) = Some t" and "t \<noteq> 0"
  shows "Frame_cancel fr w =
     (let w2 = w\<lparr>frames := (frames w)(fr := (frames w fr)\<lparr>frame_isCancel := True\<rparr>),
                 pending := filter (\<lambda>p. fst p \<noteq> t) (pending w),
                 trace := trace w @ [CancelAsked t]\<rparr>
      in case frame_defer (frames w fr) of
           None \<Rightarrow> w2
         | Some d \<Rightarrow>
             if state (promises w d) = Pending then
               w2\<lparr>promises := (promises w)(d := \<lparr>state = Rejected (Str ''CANCEL''), reactions = []\<rparr>),
                  microtasks := microtasks w @ map (\<lambda>r. OnRejected r (Str ''CANCEL''))
                                                  (reactions (promises w d)),
                  trace := trace w @ [CancelAsked t, FrameReject d (Str ''CANCEL'')]\<rparr>
             else w2\<lparr>trace := trace w @ [CancelAsked t, FrameReject d (Str ''CANCEL'')]\<rparr>)"
  using assms
  by (simp add: Frame_cancel_def cancelAnimationFrame_def deferred_reject_def Let_def
           split: option.split)

lemma tick_callback_cancelled:
  "frame_isCancel (frames w fr) \<Longrightarrow> tick_callback fr args w = w"
  by (simp add: tick_callback_def)

lemma Frame_cancel_sets_flag:
  assumes "frame_tick (frames w fr) = Some t" and "t \<noteq> 0"
  shows "frame_isCancel (frames (Frame_cancel fr w) fr)"
    and "frame_tick (frames (Frame_cancel fr w) fr) = Some t"
    and "frame_defer (frames (Frame_cancel fr w) fr) = frame_defer (frames w fr)"
    and "pending (Frame_cancel fr w) = filter (\<lambda>p. fst p \<noteq> t) (pending w)"
  using assms
  by (simp_all add: Frame_cancel_effect Let_def split: option.split)

lemma Frame_cancel_twice:
  "(Frame_cancel fr (Frame_cancel fr w))\<lparr>trace := []\<rparr> = (Frame_cancel fr w)\<lparr>trace := []\<rparr>"
proof (cases "frame_tick (frames w fr)")
  case None
  then show ?thesis
    by (simp add: Frame_cancel_unrequested)
next
  case (Some t)
  show ?thesis
  proof (cases "t = 0")
    case True
    then show ?thesis
      using Some by (simp add: Frame_cancel_def)
  next
    case False
    note f = Frame_cancel_sets_flag [OF Some False]
    show ?thesis
      apply (subst Frame_cancel_effect [of "Frame_cancel fr w" fr t, OF f(2) False])
      apply (simp add: f Let_def)
      apply (simp add: Frame_cancel_effect [OF Some False] Let_def split: option.split)
      done
  qed
qed


lemma map_of_filter_fst: "map_of (filter (\<lambda>p. fst p \<noteq> t) ps) t = None"
  by (induction ps) auto

text \<open>
  C7 (cancelling a frame), as amended. \<open>cancel\<close> tests the token variable, which
  \<open>request\<close> sets and nothing clears. If the frame was never requested, \<open>cancel\<close>
  does nothing. If it was, whether or not its last token is still pending, \<open>cancel\<close>
  sets the cancellation flag, asks the scheduler to cancel the last token and rejects the
  current future with \<open>CANCEL\<close>, which changes that future only if it is still
  pending; the callback of the frame, if it ran after that, would return at once without
  invoking the wrapped function, and the scheduler no longer fires the token. A second
  \<open>cancel\<close> repeats the two calls and leaves the same state.
\<close>

theorem Frame_cancel_acts_on_last_token:
  "(frame_tick (frames w fr) = None \<longrightarrow> Frame_cancel fr w = w)
   \<and> (frame_tick (frames w fr) = Some t \<and> t \<noteq> 0 \<longrightarrow>
        frame_isCancel (frames (Frame_cancel fr w) fr)
        \<and> pending (Frame_cancel fr w) = filter (\<lambda>p. fst p \<noteq> t) (pending w)
        \<and> take (Suc (length (trace w))) (trace (Frame_cancel fr w)) = trace w @ [CancelAsked t]
        \<and> (\<forall>d. frame_defer (frames w fr) = Some d \<longrightarrow>
              trace (Frame_cancel fr w) = trace w @ [CancelAsked t, FrameReject d (Str ''CANCEL'')]
              \<and> state (promises (Frame_cancel fr w) d) =
                  (if state (promises w d) = Pending then Rejected (Str ''CANCEL'')
                   else state (promises w d)))
        \<and> tick_callback fr args (Frame_cancel fr w) = Frame_cancel fr w
        \<and> fire t (Frame_cancel fr w) = Frame_cancel fr w)
   \<and> (Frame_cancel fr (Frame_cancel fr w))\<lparr>trace := []\<rparr> = (Frame_cancel fr w)\<lparr>trace := []\<rparr>"
proof (intro conjI impI)
  show "Frame_cancel fr w = w" if "frame_tick (frames w fr) = None"
    using that by (rule Frame_cancel_unrequested)
  show "(Frame_cancel fr (Frame_cancel fr w))\<lparr>trace := []\<rparr> = (Frame_cancel fr w)\<lparr>trace := []\<rparr>"
    by (rule Frame_cancel_twice)
next
  assume a: "frame_tick (frames w fr) = Some t \<and> t \<noteq> 0"
  then have t: "frame_tick (frames w fr) = Some t" and nz: "t \<noteq> 0"
    by simp_all
  note f = Frame_cancel_sets_flag [OF t nz]
  show "frame_isCancel (frames (Frame_cancel fr w) fr)"
    by (rule f(1))
  show "pending (Frame_cancel fr w) = filter (\<lambda>p. fst p \<noteq> t) (pending w)"
    by (rule f(4))
  show "take (Suc (length (trace w))) (trace (Frame_cancel fr w)) = trace w @ [CancelAsked t]"
    by (simp add: Frame_cancel_effect [OF t nz] Let_def split: option.split)
  show "\<forall>d. frame_defer (frames w fr) = Some d \<longrightarrow>
              trace (Frame_cancel fr w) = trace w @ [CancelAsked t, FrameReject d (Str ''CANCEL'')]
              \<and> state (promises (Frame_cancel fr w) d) =
                  (if state (promises w d) = Pending then Rejected (Str ''CANCEL'')
                   else state (promises w d))"
    by (simp add: Frame_cancel_effect [OF t nz] Let_def)
  show "tick_callback fr args (Frame_cancel fr w) = Frame_cancel fr w"
    using f(1) by (rule tick_callback_cancelled)
  show "fire t (Frame_cancel fr w) = Frame_cancel fr w"
    by (simp add: fire_def f(4) map_of_filter_fst)
qed

lemma requested_world_simps:
  "frame_tick (frames requested_world 0) = Some 1"
  "frame_defer (frames requested_world 0) = Some 0"
  "pending requested_world = [(1, 0, [])]"
  "state (promises requested_world 0) = Pending"
  "trace requested_world = [Scheduled 1 0 []]"
  "frame_tick (frames empty_world 0) = None"
  by (simp_all add: requested_world_def requestFrame_def Frame_def Frame_request_effect
        empty_world_def blank_frame_def)

theorem Frame_cancel_acts_on_last_token_witness:
  "Frame_cancel 0 empty_world = empty_world
   \<and> frame_isCancel (frames (Frame_cancel 0 requested_world) 0)
   \<and> pending (Frame_cancel 0 requested_world) = []
   \<and> trace (Frame_cancel 0 requested_world)
       = [Scheduled 1 0 [], CancelAsked 1, FrameReject 0 (Str ''CANCEL'')]
   \<and> state (promises (Frame_cancel 0 requested_world) 0) = Rejected (Str ''CANCEL'')
   \<and> fire 1 (Frame_cancel 0 requested_world) = Frame_cancel 0 requested_world"
  using Frame_cancel_acts_on_last_token [of empty_world 0 1 "[]"]
        Frame_cancel_acts_on_last_token [of requested_world 0 1 "[]"]
  by (simp add: requested_world_simps)

lemma thrown_world_simps:
  "pending thrown_world = []"
  "state (promises thrown_world 0) = Pending"
  "frame_tick (frames thrown_world 0) = Some 1"
  "frame_defer (frames thrown_world 0) = Some 0"
  "\<not> frame_isCancel (frames thrown_world 0)"
  "trace thrown_world = [Scheduled 1 0 [], Invoked 0 [], Uncaught (Str ''boom'')]"
  by (simp_all add: thrown_world_def requestFrame_def Frame_def Frame_request_effect
        empty_world_def fire_def tick_callback_def drain_def thrower_def)

text \<open>
  C7 as claimed makes \<open>cancel\<close> a no-op when nothing is pending. After a frame has
  fired with a callback that threw, no token is pending and the future is still pending;
  \<open>cancel\<close> then rejects that future with \<open>CANCEL\<close>.
\<close>

theorem cancel_with_nothing_pending_counterexample:
  "pending thrown_world = []
   \<and> state (promises thrown_world 0) = Pending
   \<and> state (promises (Frame_cancel 0 thrown_world) 0) = Rejected (Str ''CANCEL'')
   \<and> Frame_cancel 0 thrown_world \<noteq> thrown_world"
proof -
  have r: "state (promises (Frame_cancel 0 thrown_world) 0) = Rejected (Str ''CANCEL'')"
    by (simp add: Frame_cancel_effect [of thrown_world 0 1] thrown_world_simps Let_def)
  then have "Frame_cancel 0 thrown_world \<noteq> thrown_world"
    using thrown_world_simps(2) by (metis pstate.distinct(3))
  then show ?thesis
    using r by (simp add: thrown_world_simps)
qed


lemma tick_callback_promises_other:
  assumes "frame_defer (frames w fr) = Some d" and "d0 \<noteq> d"
  shows "promises (tick_callback fr args w) d0 = promises w d0"
  using assms
  by (simp add: tick_callback_def deferred_resolve_def Let_def split: sum.split)

lemma Frame_cancel_promises_other:
  assumes "frame_defer (frames w fr) = Some d" and "d0 \<noteq> d"
  shows "promises (Frame_cancel fr w) d0 = promises w d0"
  using assms
  by (simp add: Frame_cancel_def cancelAnimationFrame_def deferred_reject_def Let_def
           split: option.split)

text \<open>
  C8 (requesting a frame), as amended. Each \<open>request\<close> registers exactly one new
  pending token, after those already pending (a pending token of the same frame is not
  cancelled), records it as the frame's token, clears the cancellation flag and replaces
  the completion handle by a fresh pending future. The prior handle is out of play: the
  request leaves it as it was, and neither a firing of this frame nor \<open>cancel\<close>
  changes it afterwards.
\<close>

theorem Frame_request_adds_a_token:
  "pending (Frame_request fr args w) = pending w @ [(Suc (issued w), fr, args)]
   \<and> frame_tick (frames (Frame_request fr args w) fr) = Some (Suc (issued w))
   \<and> frame_defer (frames (Frame_request fr args w) fr) = Some (next_promise w)
   \<and> frame_then (frames (Frame_request fr args w) fr) = Some (next_promise w)
   \<and> \<not> frame_isCancel (frames (Frame_request fr args w) fr)
   \<and> promises (Frame_request fr args w) (next_promise w) = \<lparr>state = Pending, reactions = []\<rparr>
   \<and> (\<forall>d0. frame_defer (frames w fr) = Some d0 \<and> d0 < next_promise w \<longrightarrow>
          promises (Frame_request fr args w) d0 = promises w d0
          \<and> promises (tick_callback fr args' (Frame_request fr args w)) d0 = promises w d0
          \<and> promises (Frame_cancel fr (Frame_request fr args w)) d0 = promises w d0)"
proof -
  have d: "frame_defer (frames (Frame_request fr args w) fr) = Some (next_promise w)"
    by (simp add: Frame_request_effect)
  have "promises (Frame_request fr args w) d0 = promises w d0
        \<and> promises (tick_callback fr args' (Frame_request fr args w)) d0 = promises w d0
        \<and> promises (Frame_cancel fr (Frame_request fr args w)) d0 = promises w d0"
    if "d0 < next_promise w" for d0
  proof -
    from that have ne: "d0 \<noteq> next_promise w"
      by simp
    have "promises (Frame_request fr args w) d0 = promises w d0"
      using ne by (simp add: Frame_request_effect)
    then show ?thesis
      using tick_callback_promises_other [OF d ne] Frame_cancel_promises_other [OF d ne]
      by simp
  qed
  then show ?thesis
    by (simp add: Frame_request_effect)
qed

lemma twice_world_simps:
  "pending twice_world = [(1, 0, [Num 1]), (2, 0, [Num 2])]"
  "frame_defer (frames twice_world 0) = Some 1"
  "frame_defer (frames (Frame_request 0 [Num 1] (snd (Frame first_arg empty_world))) 0) = Some 0"
  "next_promise (Frame_request 0 [Num 1] (snd (Frame first_arg empty_world))) = 1"
  "issued (Frame_request 0 [Num 1] (snd (Frame first_arg empty_world))) = 1"
  "pending (Frame_request 0 [Num 1] (snd (Frame first_arg empty_world))) = [(1, 0, [Num 1])]"
  "state (promises (Frame_request 0 [Num 1] (snd (Frame first_arg empty_world))) 0) = Pending"
  by (simp_all add: twice_world_def Frame_def Frame_request_effect empty_world_def)

theorem Frame_request_adds_a_token_witness:
  "pending twice_world = [(1, 0, [Num 1]), (2, 0, [Num 2])]
   \<and> frame_defer (frames twice_world 0) = Some 1
   \<and> state (promises twice_world 0) = Pending
   \<and> state (promises (tick_callback 0 [Num 1] twice_world) 0) = Pending
   \<and> state (promises (Frame_cancel 0 twice_world) 0) = Pending"
  using Frame_request_adds_a_token [of 0 "[Num 2]"
          "Frame_request 0 [Num 1] (snd (Frame first_arg empty_world))" "[Num 1]"]
  by (simp add: twice_world_simps twice_world_def [symmetric])

text \<open>
  C8 as claimed allows one in-flight request for each frame. A frame requested twice has
  two pending tokens; both fire and invoke the wrapped function, the first firing settles
  the second handle with the value of the first call, and the first handle stays pending.
\<close>

theorem two_requests_in_flight_counterexample:
  "pending twice_world = [(1, 0, [Num 1]), (2, 0, [Num 2])]
   \<and> trace (fire 2 (fire 1 twice_world)) =
       [Scheduled 1 0 [Num 1], Scheduled 2 0 [Num 2],
        Invoked 0 [Num 1], FrameResolve 1 (Num 1),
        Invoked 0 [Num 2], FrameResolve 1 (Num 2)]
   \<and> state (promises (fire 2 (fire 1 twice_world)) 1) = Fulfilled (Num 1)
   \<and> state (promises (fire 2 (fire 1 twice_world)) 0) = Pending"
  by (simp add: twice_world_def Frame_def Frame_request_effect empty_world_def fire_def
        tick_callback_def drain_def first_arg_def deferred_resolve_def Let_def)

lemma map_of_fresh_token:
  assumes "list_all (\<lambda>p. fst p \<le> n) ps"
  shows "map_of (ps @ [(Suc n, x)]) (Suc n) = Some x"
    and "filter (\<lambda>p. fst p \<noteq> Suc n) (ps @ [(Suc n, x)]) = ps"
  using assms by (induction ps) auto

text \<open>
  C9 (\<open>requestFrame\<close>), as amended. Whatever further arguments \<open>requestFrame\<close> is
  called with, it requests a fresh frame with no arguments: when the tick fires (with no
  cancel before) the function is invoked exactly once, with the empty argument list, and
  the future returned resolves with the value the function returns.
\<close>

theorem requestFrame_calls_without_arguments:
  assumes "tokens_issued w" and "microtasks w = []" and "fn [] = Inr v"
  shows "requestFrame fn extra w = requestFrame fn [] w
       \<and> fst (requestFrame fn extra w) = next_frame w
       \<and> pending (snd (requestFrame fn extra w)) = pending w @ [(Suc (issued w), next_frame w, [])]
       \<and> frame_then (frames (snd (requestFrame fn extra w)) (next_frame w)) = Some (next_promise w)
       \<and> trace (fire (Suc (issued w)) (snd (requestFrame fn extra w)))
           = trace w @ [Scheduled (Suc (issued w)) (next_frame w) [],
                        Invoked (next_frame w) [],
                        FrameResolve (next_promise w) v]
       \<and> state (promises (fire (Suc (issued w)) (snd (requestFrame fn extra w))) (next_promise w))
           = Fulfilled v
       \<and> pending (fire (Suc (issued w)) (snd (requestFrame fn extra w))) = pending w"
proof -
  have p: "list_all (\<lambda>p. fst p \<le> issued w) (pending w)"
    using assms(1) by (simp add: tokens_issued_def)
  show ?thesis
    using assms(2,3) map_of_fresh_token [OF p, of "(next_frame w, [])"]
    by (simp add: requestFrame_def Frame_def Frame_request_effect fire_def tick_callback_def
          drain_def deferred_resolve_def Let_def)
qed

lemma empty_world_simps:
  "next_frame empty_world = 0" "next_promise empty_world = 0" "next_cycle empty_world = 0"
  "next_anim empty_world = 0" "pending empty_world = []" "issued empty_world = 0"
  "microtasks empty_world = []" "trace empty_world = []"
  by (simp_all add: empty_world_def)

theorem requestFrame_calls_without_arguments_witness:
  "trace (fire 1 (snd (requestFrame first_arg [Num 5] empty_world)))
     = [Scheduled 1 0 [], Invoked 0 [], FrameResolve 0 Undefined]
   \<and> state (promises (fire 1 (snd (requestFrame first_arg [Num 5] empty_world))) 0)
       = Fulfilled Undefined"
proof -
  have a: "tokens_issued empty_world" and b: "microtasks empty_world = []"
    and c: "first_arg [] = Inr Undefined"
    by (simp_all add: tokens_issued_def empty_world_def first_arg_def)
  show ?thesis
    using requestFrame_calls_without_arguments [where w = empty_world and fn = first_arg
            and v = Undefined and extra = "[Num 5]", OF a b c, THEN conjunct2]
    by (simp add: empty_world_simps)
qed

text \<open>
  C9 as claimed passes the arguments on. Called with the further argument 5 and a
  function that returns its first argument, \<open>requestFrame\<close> never invokes the function
  with 5, and the future does not resolve with 5.
\<close>

theorem requestFrame_drops_arguments_counterexample:
  "first_arg [Num 5] = Inr (Num 5)
   \<and> Invoked 0 [Num 5] \<notin> set (trace (fire 1 (snd (requestFrame first_arg [Num 5] empty_world))))
   \<and> state (promises (fire 1 (snd (requestFrame first_arg [Num 5] empty_world))) 0)
       \<noteq> Fulfilled (Num 5)"
  by (simp add: requestFrame_def Frame_def Frame_request_effect empty_world_def fire_def
        tick_callback_def drain_def first_arg_def deferred_resolve_def Let_def)

section \<open>Fixed-point strings of whole numbers\<close>

lemma digit_char_cases:
  assumes "d < 10"
  shows "digit_char d \<in> set ''0123456789''" and "digit_val (digit_char d) = d"
proof -
  from assms have "d = 0 \<or> d = 1 \<or> d = 2 \<or> d = 3 \<or> d = 4 \<or> d = 5 \<or> d = 6 \<or> d = 7 \<or> d = 8 \<or> d = 9"
    by arith
  then show "digit_char d \<in> set ''0123456789''" and "digit_val (digit_char d) = d"
    by (auto simp: digit_char_def digit_val_def)
qed

lemma digits_chars: "set (digits n) \<subseteq> set ''0123456789''"
proof (induction n rule: digits.induct)
  case (1 n)
  show ?case
  proof (cases "n < 10")
    case True
    then show ?thesis
      using digit_char_cases(1) [of n] by (subst digits.simps) simp
  next
    case False
    have "n mod 10 < 10"
      by simp
    then show ?thesis
      using False "1.IH" [OF False] digit_char_cases(1) [of "n mod 10"]
      by (subst digits.simps) simp
  qed
qed

lemma digits_nonempty: "digits n \<noteq> []"
  by (subst digits.simps) simp

lemma parse_digits_snoc: "parse_digits (xs @ [c]) = 10 * parse_digits xs + digit_val c"
  by (simp add: parse_digits_def)

lemma parse_digits_digits: "parse_digits (digits n) = n"
proof (induction n rule: digits.induct)
  case (1 n)
  show ?case
  proof (cases "n < 10")
    case True
    then show ?thesis
      using digit_char_cases(2) [of n] by (subst digits.simps) (simp add: parse_digits_def)
  next
    case False
    have "n mod 10 < 10"
      by simp
    then show ?thesis
      using False "1.IH" [OF False] digit_char_cases(2) [of "n mod 10"]
      by (subst digits.simps) (simp add: parse_digits_snoc)
  qed
qed

lemma parse_digits_zeros: "parse_digits (replicate k (CHR ''0'')) = 0"
proof (induction k)
  case 0
  then show ?case
    by (simp add: parse_digits_def)
next
  case (Suc k)
  have "replicate (Suc k) (CHR ''0'') = replicate k (CHR ''0'') @ ''0''"
    by (simp add: replicate_append_same)
  then have "parse_digits (replicate (Suc k) (CHR ''0''))
               = 10 * parse_digits (replicate k (CHR ''0'')) + digit_val (CHR ''0'')"
    using parse_digits_snoc [of "replicate k (CHR ''0'')" "CHR ''0''"] by simp
  then show ?case
    using Suc by (simp add: digit_val_def)
qed

lemma digits_times_10: "0 < n \<Longrightarrow> digits (n * 10) = digits n @ ''0''"
  by (subst digits.simps) (simp add: digit_char_def)

lemma digits_shift: "0 < n \<Longrightarrow> digits (n * 10 ^ k) = digits n @ replicate k (CHR ''0'')"
proof (induction k)
  case 0
  then show ?case by simp
next
  case (Suc k)
  have "digits (n * 10 ^ Suc k) = digits ((n * 10 ^ k) * 10)"
    by (simp add: mult.commute mult.left_commute)
  also have "\<dots> = digits (n * 10 ^ k) @ ''0''"
    using Suc.prems by (intro digits_times_10) simp
  also have "\<dots> = digits n @ replicate (Suc k) (CHR ''0'')"
    using Suc by (simp add: replicate_append_same)
  finally show ?case .
qed

lemma toFixed_whole:
  assumes "0 < n"
  shows "toFixed f (of_nat n) = digits n @ (if f = 0 then [] else CHR ''.'' # replicate f (CHR ''0''))"
proof -
  have "\<lfloor>\<bar>rat_of_nat n\<bar> * 10 ^ f + 1 / 2\<rfloor> = int (n * 10 ^ f)"
    by (rule floor_unique) simp_all
  then have n: "nat \<lfloor>\<bar>rat_of_nat n\<bar> * 10 ^ f + 1 / 2\<rfloor> = n * 10 ^ f"
    by (simp only: nat_int)
  have l: "Suc f - length (digits n @ replicate f (CHR ''0'')) = 0"
    using digits_nonempty [of n] by (cases "digits n") simp_all
  show ?thesis
    unfolding toFixed_def Let_def n digits_shift [OF assms] l
    by simp
qed

lemma ToNumber_toFixed_whole:
  assumes "0 < n"
  shows "ToNumber (toFixed 10 (of_nat n)) = of_nat n"
proof -
  have nodot: "CHR ''.'' \<notin> set (digits n)" and nominus: "CHR ''-'' \<notin> set (digits n)"
    using digits_chars [of n] by auto
  have hd: "hd (digits n @ CHR ''.'' # replicate 10 (CHR ''0'')) \<noteq> CHR ''-''"
    using nominus digits_nonempty [of n] by (cases "digits n") auto
  have tw: "takeWhile (\<lambda>c. c \<noteq> CHR ''.'') (digits n @ CHR ''.'' # replicate 10 (CHR ''0''))
              = digits n"
    by (subst takeWhile_append2) (use nodot in auto)
  show ?thesis
    using hd
    by (simp add: toFixed_whole [OF assms] ToNumber_def Let_def tw parse_digits_digits
          parse_digits_zeros del: replicate.simps)
qed

lemma request_numeric:
  "request a w =
     (let percent = anim_framePercent (anims w a) * of_nat (anim_frameIndex (anims w a) + 1)
      in if anim_frameIndex (anims w a) < length (anim_frameQueue (anims w a)) then
           (let currentFrame = anim_frameQueue (anims w a) ! anim_frameIndex (anims w a)
            in case anim_timingFunction (anims w a) of
                 TFunction timingFunction \<Rightarrow>
                   (let w1 = Frame_request currentFrame
                               [Str (toFixed 10 percent),
                                Str (toFixed 10 (timingFunction percent))] w
                    in case frame_then (frames w1 currentFrame) of
                         Some d \<Rightarrow> Inr (promise_then d (Walk a) w1)
                       | None \<Rightarrow> Inl TypeError)
               | _ \<Rightarrow> Inl TypeError)
         else Inl TypeError)"
proof -
  have e: "ToNumber (toFixed 10 (rat_of_nat (anim_frameIndex (anims w a) + 1)))
             = rat_of_nat (anim_frameIndex (anims w a) + 1)"
    by (rule ToNumber_toFixed_whole) simp
  show ?thesis
    unfolding request_def e by (rule refl)
qed

section \<open>Jobs queue no jobs\<close>

lemma request_microtasks:
  "request a w = Inr w' \<Longrightarrow> microtasks w' = microtasks w"
  by (auto simp add: request_numeric Frame_request_effect promise_then_def Let_def
        split: if_splits timing.splits)

lemma walk_onFulfilled_microtasks: "microtasks (walk_onFulfilled a w) = microtasks w"
proof (cases "request a (w\<lparr>anims := (anims w)(a := (anims w a)\<lparr>anim_frameIndex :=
                                              Suc (anim_frameIndex (anims w a))\<rparr>)\<rparr>)")
  case (Inl e)
  then show ?thesis
    by (simp add: walk_onFulfilled_def cycle_resolve_def Let_def split: option.split)
next
  case (Inr w2)
  then show ?thesis
    using request_microtasks [OF Inr]
    by (simp add: walk_onFulfilled_def cycle_resolve_def Let_def split: option.split)
qed

lemma run_job_microtasks: "microtasks (run_job j w) = microtasks w"
  by (cases j) (simp_all add: run_job_def walk_onFulfilled_microtasks split: reaction.split)

section \<open>Runs keep the walk in order\<close>


lemma request_throws:
  assumes "\<not> anim_frameIndex (anims w a) < length (anim_frameQueue (anims w a))"
  shows "request a w = Inl TypeError"
  using assms by (simp add: request_numeric Let_def)

lemma finishes_append:
  "finishes c (w\<lparr>trace := trace w @ es\<rparr>) =
     finishes c w + length (filter (\<lambda>e. e = CycleResolve c (Str ''FINISH'')) es)"
  by (simp add: finishes_def)







lemma list_all_filter_mono: "list_all P xs \<Longrightarrow> list_all P (filter Q xs)"
  by (induction xs) auto









































lemma frameCount_10: "10 / INTERVAL = 3 / 5"
  by (simp add: INTERVAL_def FPS_def)










end
